theory Spec2Isabelle
  imports Complex_Main "HOL-Library.AList" "HOL-Library.Sublist"
begin

section \<open>Values\<close>

text \<open>
  The job template, the raw overrides, the request body and the parsed response body are
  Python values of JSON shape. A \<open>dict\<close> is an association list in insertion order
  (\<open>AList.update\<close> overwrites in place or appends, as assignment to a key does);
  Python keeps the keys of a \<open>dict\<close> unique, which the theorems state as
  \<open>distinct (map fst d)\<close> where they need it. A \<open>str\<close> is a \<open>string\<close>, one
  \<open>char\<close> per code point below 256. A \<open>float\<close> is carried as a rational number
  (no NaN and no infinities; nothing here computes with it).
\<close>

datatype json =
    JNull
  | JBool bool
  | JInt int
  | JFloat rat
  | JStr string
  | JList "json list"
  | JDict "(string \<times> json) list"

type_synonym pydict = "(string \<times> json) list"

text \<open>Python's truth value of an object, as \<open>if x:\<close> and \<open>not x\<close> test it.\<close>

fun truthy :: "json \<Rightarrow> bool" where
  "truthy JNull = False"
| "truthy (JBool b) = b"
| "truthy (JInt n) = (n \<noteq> 0)"
| "truthy (JFloat r) = (r \<noteq> 0)"
| "truthy (JStr s) = (s \<noteq> [])"
| "truthy (JList xs) = (xs \<noteq> [])"
| "truthy (JDict d) = (d \<noteq> [])"

fun is_dict :: "json \<Rightarrow> bool" where
  "is_dict (JDict d) = True"
| "is_dict v = False"

fun is_list :: "json \<Rightarrow> bool" where
  "is_list (JList xs) = True"
| "is_list v = False"

text \<open>\<open>d.get(k)\<close> is \<open>map_of d k\<close>, with \<open>None\<close> for Python's \<open>None\<close>;
  \<open>if d.get(k):\<close> is \<open>get_truthy d k\<close>.\<close>

definition get_truthy :: "pydict \<Rightarrow> string \<Rightarrow> bool" where
  "get_truthy d k = (case map_of d k of None \<Rightarrow> False | Some v \<Rightarrow> truthy v)"

section \<open>StructuredMerge\<close>

text \<open>
  Modelled from the spec: \<open>cook.util.deep_merge\<close> is imported by \<open>submit.py\<close> and is not
  among the sources. Section 4.1: for a mapping key present in both operands, if both
  values are mappings, recurse; otherwise the override's value wins outright; keys only
  in the override are added, keys only in the base are preserved; lists are never merged
  element-wise; no error conditions.
\<close>

fun deep_merge :: "json \<Rightarrow> json \<Rightarrow> json"
  and merge_items :: "pydict \<Rightarrow> pydict \<Rightarrow> pydict" where
  "deep_merge (JDict a) (JDict b) = JDict (merge_items a b)"
| "deep_merge (JDict a) JNull = JNull"
| "deep_merge (JDict a) (JBool x) = JBool x"
| "deep_merge (JDict a) (JInt x) = JInt x"
| "deep_merge (JDict a) (JFloat x) = JFloat x"
| "deep_merge (JDict a) (JStr x) = JStr x"
| "deep_merge (JDict a) (JList x) = JList x"
| "deep_merge JNull b = b"
| "deep_merge (JBool x) b = b"
| "deep_merge (JInt x) b = b"
| "deep_merge (JFloat x) b = b"
| "deep_merge (JStr x) b = b"
| "deep_merge (JList x) b = b"
| "merge_items a [] = a"
| "merge_items a ((k, v) # b) =
     merge_items
       (AList.update k (case map_of a k of None \<Rightarrow> v | Some av \<Rightarrow> deep_merge av v) a) b"

section \<open>Python strings\<close>

text \<open>\<open>str.isspace\<close> on the code points below 256: the separators of \<open>str.split()\<close>.\<close>

definition is_space :: "char \<Rightarrow> bool" where
  "is_space c =
     (let n = (of_char c :: nat)
      in (9 \<le> n \<and> n \<le> 13) \<or> (28 \<le> n \<and> n \<le> 32) \<or> n = 133 \<or> n = 160)"

text \<open>\<open>s.strip(chars)\<close>: every leading and every trailing character that occurs in
  \<open>chars\<close> is removed.\<close>

definition py_strip :: "string \<Rightarrow> string \<Rightarrow> string" where
  "py_strip chars s =
     rev (dropWhile (\<lambda>c. c \<in> set chars) (rev (dropWhile (\<lambda>c. c \<in> set chars) s)))"

text \<open>\<open>s.find(sub)\<close>: the lowest index at which \<open>sub\<close> occurs in \<open>s\<close>. \<open>sub in s\<close>
  holds when there is one, and \<open>s.index(sub)\<close> is that index.\<close>

fun py_find :: "string \<Rightarrow> string \<Rightarrow> nat option" where
  "py_find sub [] = (if sub = [] then Some 0 else None)"
| "py_find sub (c # cs) =
     (if prefix sub (c # cs) then Some 0 else map_option Suc (py_find sub cs))"

text \<open>\<open>s.split()\<close>: the maximal runs of characters that are not whitespace.\<close>

function py_split :: "string \<Rightarrow> string list" where
  "py_split s =
     (case dropWhile is_space s of
        [] \<Rightarrow> []
      | c # cs \<Rightarrow>
          (c # takeWhile (\<lambda>x. \<not> is_space x) cs) # py_split (dropWhile (\<lambda>x. \<not> is_space x) cs))"
  by pat_completeness auto
termination
proof (relation "measure length")
  show "wf (measure length)" by simp
next
  fix s :: string and c cs
  assume a: "dropWhile is_space s = c # cs"
  have "length (dropWhile (\<lambda>x. \<not> is_space x) cs) \<le> length cs"
    by (rule length_dropWhile_le)
  also have "length cs < length (dropWhile is_space s)"
    using a by simp
  also have "length (dropWhile is_space s) \<le> length s"
    by (rule length_dropWhile_le)
  finally show "(dropWhile (\<lambda>x. \<not> is_space x) cs, s) \<in> measure length"
    by simp
qed

declare py_split.simps [simp del]

text \<open>\<open>sep.join(xs)\<close>.\<close>

fun py_join :: "string \<Rightarrow> string list \<Rightarrow> string" where
  "py_join sep [] = []"
| "py_join sep [x] = x"
| "py_join sep (x # y # ys) = x @ sep @ py_join sep (y # ys)"

text \<open>\<open>shlex.quote\<close> of the standard library: the empty string becomes two quotes, a
  string of safe characters (\<open>[A-Za-z0-9_@%+=:,./-]\<close>) is returned as it is, any other
  is put in single quotes, each single quote in it written \<open>'"'"'\<close>.\<close>

definition shlex_safe :: "char \<Rightarrow> bool" where
  "shlex_safe c =
     (let n = (of_char c :: nat)
      in (48 \<le> n \<and> n \<le> 57) \<or> (65 \<le> n \<and> n \<le> 90) \<or> (97 \<le> n \<and> n \<le> 122)
         \<or> c \<in> set ''_@%+=:,./-'')"

definition shlex_quote :: "string \<Rightarrow> string" where
  "shlex_quote s =
     (if s = [] then [CHR 0x27, CHR 0x27]
      else if list_all shlex_safe s then s
      else [CHR 0x27]
           @ concat (map (\<lambda>c. if c = CHR 0x27
                                then [CHR 0x27, CHR 0x22, CHR 0x27, CHR 0x22, CHR 0x27]
                                else [c]) s)
           @ [CHR 0x27])"

section \<open>Collaborators\<close>

text \<open>
  What \<open>submit.py\<close> imports and this repository's sources do not hold is a parameter:
  the colour functions of \<open>cook.colors\<close>, \<open>json.dumps\<close> and \<open>json.loads\<close> (\<open>None\<close>
  when the text is not JSON), \<open>str()\<close> of a value that is not a string, and from
  \<open>cook.util\<close> the predicate \<open>is_valid_uuid\<close>, \<open>current_user\<close>, \<open>read_lines\<close> (the lines
  of the standard input) and \<open>guard_no_cluster\<close> (the exception it raises, if any);
  \<open>version.VERSION\<close>; and \<open>uuid4 n\<close>, the text of the \<open>n\<close>-th identifier that
  \<open>uuid.uuid4()\<close> generates in this run.
\<close>

datatype exn =
    Exception string
  | ValueError string
  | TypeError
  | KeyError string
  | AttributeError

record cluster =
  name :: string
  url :: string

record env =
  colors_success :: "string \<Rightarrow> string"
  colors_failed :: "string \<Rightarrow> string"
  colors_reason :: "json \<Rightarrow> string"
  colors_bold :: "string \<Rightarrow> string"
  json_dumps :: "json \<Rightarrow> string"
  json_loads :: "string \<Rightarrow> json option"
  py_str :: "json \<Rightarrow> string"
  is_valid_uuid :: "string \<Rightarrow> bool"
  current_user :: string
  read_lines :: "string \<Rightarrow> string list"
  guard_no_cluster :: "cluster list \<Rightarrow> exn option"
  version_VERSION :: string
  uuid4 :: "nat \<Rightarrow> string"

text \<open>The transport: \<open>http.post\<close> answers with a response, or raises
  \<open>requests.exceptions.ReadTimeout\<close>, or raises another \<open>IOError\<close> (no connection).
  \<open>resp_text\<close> is \<open>response.text\<close>; \<open>resp_json\<close> is what \<open>response.json()\<close> returns, \<open>None\<close> when it raises
  \<open>JSONDecodeError\<close>.\<close>

record response =
  status_code :: int
  resp_text :: string
  resp_json :: "json option"

datatype outcome = Response response | ReadTimeout | IOError

text \<open>What the run does to the outside: a line given to \<open>print_info\<close> (with the text
  for silent mode, when one is passed), a call of \<open>http.post\<close> with what came back, a
  call of \<open>metrics.inc\<close>. The \<open>logging\<close> calls are left out.\<close>

datatype event =
    PrintInfo string "string option"
  | Post cluster string json outcome
  | MetricsInc string nat

datatype result = Return int | Raise exn

section \<open>ResponseInterpreter\<close>

definition nl :: string where
  "nl = [CHR 0x0A]"

text \<open>A value put into a string by \<open>%s\<close> or an f-string: a string as it is, any other
  value through \<open>str()\<close>.\<close>

definition py_format :: "env \<Rightarrow> json \<Rightarrow> string" where
  "py_format E v = (case v of JStr s \<Rightarrow> s | _ \<Rightarrow> py_str E v)"

definition submit_succeeded_message :: "env \<Rightarrow> string \<Rightarrow> string list \<Rightarrow> string" where
  "submit_succeeded_message E cluster_name uuids =
     (if length uuids = 1
      then ''Job submission '' @ colors_success E ''succeeded'' @ '' on '' @ cluster_name
           @ ''. Your job UUID is:'' @ nl @ hd uuids
      else ''Job submission '' @ colors_success E ''succeeded'' @ '' on '' @ cluster_name
           @ ''. Your job UUIDs are:'' @ nl @ py_join nl uuids)"

definition submit_failed_message :: "env \<Rightarrow> string \<Rightarrow> json \<Rightarrow> string" where
  "submit_failed_message E cluster_name reason =
     ''Job submission '' @ colors_failed E ''failed'' @ '' on '' @ cluster_name @ '':'' @ nl
     @ colors_reason E reason"

text \<open>Lines 58 to 62 of \<open>print_submit_result\<close>: the job identifiers in the text of a
  201 response.\<close>

definition submitted_uuids :: "env \<Rightarrow> string \<Rightarrow> string list" where
  "submitted_uuids E response_text =
     (let text = py_strip [CHR 0x22] response_text;
          text = (case py_find '' submitted groups'' text of
                    Some group_index \<Rightarrow> take group_index text
                  | None \<Rightarrow> text)
      in filter (is_valid_uuid E) (py_split text))"

text \<open>\<open>key in data\<close> and \<open>data[key]\<close> for a string \<open>key\<close>, on whatever
  \<open>response.json()\<close> returned: membership is by key in a \<open>dict\<close>, by element in a
  \<open>list\<close>, by substring in a \<open>str\<close>, and a \<open>TypeError\<close> on \<open>None\<close>, a \<open>bool\<close> or a
  number; only a \<open>dict\<close> can be indexed by a string.\<close>

fun py_contains :: "string \<Rightarrow> json \<Rightarrow> exn + bool" where
  "py_contains key (JDict d) = Inr (map_of d key \<noteq> None)"
| "py_contains key (JList xs) = Inr (JStr key \<in> set xs)"
| "py_contains key (JStr s) = Inr (py_find key s \<noteq> None)"
| "py_contains key v = Inl TypeError"

fun py_getitem :: "json \<Rightarrow> string \<Rightarrow> exn + json" where
  "py_getitem (JDict d) key = (case map_of d key of None \<Rightarrow> Inl (KeyError key) | Some v \<Rightarrow> Inr v)"
| "py_getitem v key = Inl TypeError"

text \<open>The \<open>else\<close> branch of \<open>print_submit_result\<close> up to the reason it prints.\<close>

definition failure_reason :: "env \<Rightarrow> response \<Rightarrow> exn + json" where
  "failure_reason E response =
     (case resp_json response of
        None \<Rightarrow> Inr (JStr (resp_text response @ nl))
      | Some data \<Rightarrow>
          (case py_contains ''errors'' data of
             Inl e \<Rightarrow> Inl e
           | Inr True \<Rightarrow>
               (case py_getitem data ''errors'' of
                  Inl e \<Rightarrow> Inl e
                | Inr v \<Rightarrow> Inr (JStr (json_dumps E v)))
           | Inr False \<Rightarrow>
               (case py_contains ''error'' data of
                  Inl e \<Rightarrow> Inl e
                | Inr True \<Rightarrow> py_getitem data ''error''
                | Inr False \<Rightarrow> Inr (JStr (json_dumps E data)))))"

definition print_submit_result :: "env \<Rightarrow> cluster \<Rightarrow> response \<Rightarrow> exn + event list" where
  "print_submit_result E cluster response =
     (let cluster_name = name cluster
      in if status_code response = 201
         then (let uuids = submitted_uuids E (resp_text response)
               in Inr [PrintInfo (submit_succeeded_message E cluster_name uuids)
                         (Some (py_join nl uuids))])
         else (case failure_reason E response of
                 Inl e \<Rightarrow> Inl e
               | Inr reason \<Rightarrow>
                   Inr [PrintInfo (submit_failed_message E cluster_name reason) None]))"

section \<open>FederatedSubmitter\<close>

text \<open>
  One turn of the loop of \<open>submit_federated\<close>: the events of the turn, the state of the
  transport after it, and \<open>Some r\<close> when the turn leaves the function (by \<open>return\<close>, or
  by an exception that no \<open>except\<close> clause of the loop takes), \<open>None\<close> when the loop
  goes on.
\<close>

definition request_body :: "json list \<Rightarrow> json option \<Rightarrow> json" where
  "request_body jobs grp =
     JDict ((''jobs'', JList jobs)
            # (case grp of
                 None \<Rightarrow> []
               | Some g \<Rightarrow> if truthy g then [(''groups'', JList [g])] else []))"

definition attempting_message :: "env \<Rightarrow> string \<Rightarrow> string" where
  "attempting_message E cluster_name =
     ''Attempting to submit on '' @ colors_bold E cluster_name @ '' cluster...''"

definition read_timeout_message :: "env \<Rightarrow> string \<Rightarrow> string \<Rightarrow> string" where
  "read_timeout_message E cluster_name cluster_url =
     colors_failed E
       (''Encountered read timeout with '' @ cluster_name @ '' ('' @ cluster_url
        @ ''). Your submission may have completed.'')"

definition cannot_connect_message :: "env \<Rightarrow> string \<Rightarrow> string \<Rightarrow> string" where
  "cannot_connect_message E cluster_name cluster_url =
     submit_failed_message E cluster_name
       (JStr (''Cannot connect to '' @ cluster_name @ '' ('' @ cluster_url @ '')''))
     @ nl"

definition attempt ::
  "env \<Rightarrow> ('w \<Rightarrow> cluster \<Rightarrow> string \<Rightarrow> json \<Rightarrow> outcome \<times> 'w) \<Rightarrow> cluster \<Rightarrow> json list
     \<Rightarrow> json option \<Rightarrow> 'w \<Rightarrow> result option \<times> event list \<times> 'w" where
  "attempt E post cluster jobs grp w =
     (let cluster_name = name cluster;
          cluster_url = url cluster;
          json_body = request_body jobs grp;
          (out, w') = post w cluster ''rawscheduler'' json_body;
          sent = [PrintInfo (attempting_message E cluster_name) None,
                  Post cluster ''rawscheduler'' json_body out]
      in case out of
           Response resp \<Rightarrow>
             (case print_submit_result E cluster resp of
                Inl e \<Rightarrow> (Some (Raise e), sent, w')
              | Inr printed \<Rightarrow>
                  if status_code resp = 201
                  then (Some (Return 0),
                        sent @ printed @ [MetricsInc ''command.submit.jobs'' (length jobs)], w')
                  else (None, sent @ printed, w'))
         | ReadTimeout \<Rightarrow>
             (Some (Return 1),
              sent @ [PrintInfo (read_timeout_message E cluster_name cluster_url) None], w')
         | IOError \<Rightarrow>
             (None,
              sent @ [PrintInfo (cannot_connect_message E cluster_name cluster_url) None], w'))"

definition all_failed :: "env \<Rightarrow> exn" where
  "all_failed E =
     Exception (colors_failed E ''Job submission failed on all of your configured clusters.'')"

fun submit_federated ::
  "env \<Rightarrow> ('w \<Rightarrow> cluster \<Rightarrow> string \<Rightarrow> json \<Rightarrow> outcome \<times> 'w) \<Rightarrow> cluster list \<Rightarrow> json list
     \<Rightarrow> json option \<Rightarrow> 'w \<Rightarrow> result \<times> event list \<times> 'w" where
  "submit_federated E post [] jobs grp w = (Raise (all_failed E), [], w)"
| "submit_federated E post (cluster # clusters) jobs grp w =
     (case attempt E post cluster jobs grp w of
        (Some r, evs, w') \<Rightarrow> (r, evs, w')
      | (None, evs, w') \<Rightarrow>
          (case submit_federated E post clusters jobs grp w' of
             (r, evs', w'') \<Rightarrow> (r, evs @ evs', w'')))"

text \<open>The transport calls among the events, in order: the cluster and what came back.\<close>

fun posts :: "event list \<Rightarrow> (cluster \<times> outcome) list" where
  "posts [] = []"
| "posts (Post c path body out # evs) = (c, out) # posts evs"
| "posts (PrintInfo s q # evs) = posts evs"
| "posts (MetricsInc s n # evs) = posts evs"

fun created :: "outcome \<Rightarrow> bool" where
  "created (Response r) = (status_code r = 201)"
| "created ReadTimeout = False"
| "created IOError = False"

section \<open>CommandSource\<close>

text \<open>\<open>parse_raw_job_spec\<close>. The \<open>ValueError\<close> of the \<open>else\<close> branch is raised inside
  the \<open>try\<close>, so the \<open>except Exception\<close> clause replaces it, as it does an error of
  \<open>json.loads\<close>: every failure is the one \<open>ValueError\<close>.\<close>

fun merge_raw :: "json \<Rightarrow> json \<Rightarrow> exn + json list" where
  "merge_raw job (JDict d) = Inr [deep_merge job (JDict d)]"
| "merge_raw job (JList content) = Inr (map (deep_merge job) content)"
| "merge_raw job v = Inl (ValueError ''malformed JSON for raw job'')"

definition parse_raw_job_spec :: "env \<Rightarrow> json \<Rightarrow> string \<Rightarrow> exn + json list" where
  "parse_raw_job_spec E job r =
     (case json_loads E r of
        None \<Rightarrow> Inl (ValueError ''malformed JSON for raw job'')
      | Some content \<Rightarrow> merge_raw job content)"

text \<open>From here to \<open>submit\<close> a function returns what it gives or raises together with
  the events of its run. \<open>read_commands_from_stdin\<close> prints its prompt with
  \<open>print_info\<close> before it reads. (\<open>read_jobs_from_stdin\<close> writes its prompt to the
  standard error with \<open>print\<close>, not with \<open>print_info\<close>; like the \<open>logging\<close> calls it
  is no event here.)\<close>

definition commands_prompt :: string where
  "commands_prompt =
     ''Enter the commands, one per line (press Ctrl+D on a blank line to submit)''"

definition read_commands_from_stdin :: "env \<Rightarrow> string \<Rightarrow> (exn + json list) \<times> event list" where
  "read_commands_from_stdin E stdin =
     (let printed = [PrintInfo commands_prompt None];
          commands = read_lines E stdin
      in if length commands < 1
         then (Inl (Exception ''You must specify at least one command.''), printed)
         else (Inr (map JStr commands), printed))"

text \<open>\<open>shlex.quote(s)\<close> for each \<open>s\<close>: it returns two quotes for anything falsy, and
  raises a \<open>TypeError\<close> on any other value that is not a string.\<close>

fun quote_all :: "json list \<Rightarrow> exn + string list" where
  "quote_all [] = Inr []"
| "quote_all (v # vs) =
     (case (case v of
              JStr s \<Rightarrow> Inr (shlex_quote s)
            | _ \<Rightarrow> if truthy v then Inl TypeError else Inr [CHR 0x27, CHR 0x27]) of
        Inl e \<Rightarrow> Inl e
      | Inr q \<Rightarrow> (case quote_all vs of Inl e \<Rightarrow> Inl e | Inr qs \<Rightarrow> Inr (q # qs)))"

text \<open>The \<open>if command_args:\<close> branch of \<open>acquire_commands\<close> on a list (an empty list is
  falsy and does not get here).\<close>

definition commands_of_tokens :: "json list \<Rightarrow> exn + json list" where
  "commands_of_tokens command_args =
     (if length command_args = 1 then Inr command_args
      else (let command_args =
                  (case command_args of
                     [] \<Rightarrow> []
                   | a # rest \<Rightarrow> if a = JStr ''--'' then rest else command_args)
            in case quote_all command_args of
                 Inl e \<Rightarrow> Inl e
               | Inr quoted \<Rightarrow> Inr [JStr (py_join '' '' quoted)]))"

text \<open>\<open>acquire_commands\<close>; \<open>command_args\<close> is \<open>None\<close> when the key was absent. A string
  behaves as the list of its characters; a \<open>dict\<close> with one key is iterated by
  \<open>submit\<close> (its key), one with more fails at \<open>command_args[0]\<close>; a number or
  \<open>True\<close> has no \<open>len()\<close>.\<close>

definition acquire_commands ::
  "env \<Rightarrow> json option \<Rightarrow> string \<Rightarrow> (exn + json list) \<times> event list" where
  "acquire_commands E command_args stdin =
     (case command_args of
        None \<Rightarrow> read_commands_from_stdin E stdin
      | Some v \<Rightarrow>
          if \<not> truthy v then read_commands_from_stdin E stdin
          else ((case v of
                   JList xs \<Rightarrow> commands_of_tokens xs
                 | JStr s \<Rightarrow> commands_of_tokens (map (\<lambda>c. JStr [c]) s)
                 | JDict d \<Rightarrow> if length d = 1 then Inr (map (\<lambda>kv. JStr (fst kv)) d)
                              else Inl (KeyError ''0'')
                 | _ \<Rightarrow> Inl TypeError),
                []))"

section \<open>JobAssembler\<close>

definition opt_truthy :: "json option \<Rightarrow> bool" where
  "opt_truthy v = (case v of None \<Rightarrow> False | Some x \<Rightarrow> truthy x)"

text \<open>Lines 156 to 162 of \<open>submit\<close>: the keys taken out of the template, and the
  \<open>application\<close> field put in. \<open>pop('command-prefix')\<close> has no default.\<close>

definition strip_template ::
  "env \<Rightarrow> pydict \<Rightarrow> exn + (json option \<times> json option \<times> json \<times> pydict)" where
  "strip_template E args =
     (let job_template = args;
          raw = map_of job_template ''raw'';
          job_template = AList.delete ''raw'' job_template;
          command_from_command_line = map_of job_template ''command'';
          job_template = AList.delete ''command'' job_template
      in case map_of job_template ''command-prefix'' of
           None \<Rightarrow> Inl (KeyError ''command-prefix'')
         | Some command_prefix \<Rightarrow>
             (let job_template = AList.delete ''command-prefix'' job_template;
                  application_name =
                    (case map_of job_template ''application-name'' of
                       None \<Rightarrow> JStr ''cook-scheduler-cli''
                     | Some v \<Rightarrow> v);
                  job_template = AList.delete ''application-name'' job_template;
                  application_version =
                    (case map_of job_template ''application-version'' of
                       None \<Rightarrow> JStr (version_VERSION E)
                     | Some v \<Rightarrow> v);
                  job_template = AList.delete ''application-version'' job_template;
                  job_template =
                    AList.update ''application''
                      (JDict [(''name'', application_name), (''version'', application_version)])
                      job_template
              in Inr (raw, command_from_command_line, command_prefix, job_template)))"

text \<open>Lines 164 to 172: the group, the template with the group's identifier in it, and the
  number of identifiers generated so far.\<close>

definition resolve_group :: "env \<Rightarrow> pydict \<Rightarrow> pydict \<times> json option \<times> nat" where
  "resolve_group E job_template =
     (case map_of job_template ''group-name'' of
        None \<Rightarrow> (job_template, None, 0)
      | Some group_name \<Rightarrow>
          (case map_of job_template ''group'' of
             None \<Rightarrow>
               (let u = JStr (uuid4 E 0)
                in (AList.delete ''group-name'' (AList.update ''group'' u job_template),
                    Some (JDict [(''name'', group_name), (''uuid'', u)]), 1))
           | Some u \<Rightarrow>
               (AList.delete ''group-name'' job_template,
                Some (JDict [(''name'', group_name), (''uuid'', u)]), 0)))"

text \<open>Line 187, \<open>dict([e.split('=', maxsplit=1) for e in job_template['env']])\<close>: the
  comprehension first (an element that is not a string has no \<open>split\<close>), then
  \<open>dict\<close>, which takes pairs only (its \<open>ValueError\<close> names the index and the length
  of the first element that is no pair) and lets a later pair overwrite an earlier one.
  Iterating a string gives its characters, iterating a \<open>dict\<close> its keys.\<close>

function show_nat :: "nat \<Rightarrow> string" where
  "show_nat n =
     (if n < 10 then [char_of (48 + n)]
      else show_nat (n div 10) @ [char_of (48 + n mod 10)])"
  by pat_completeness auto
termination
  by (relation "measure id") auto

declare show_nat.simps [simp del]

definition split_once :: "string \<Rightarrow> string list" where
  "split_once e =
     (if CHR ''='' \<in> set e
      then [takeWhile (\<lambda>c. c \<noteq> CHR ''='') e, tl (dropWhile (\<lambda>c. c \<noteq> CHR ''='') e)]
      else [e])"

fun env_splits :: "json list \<Rightarrow> exn + string list list" where
  "env_splits [] = Inr []"
| "env_splits (JStr e # es) =
     (case env_splits es of Inl x \<Rightarrow> Inl x | Inr ps \<Rightarrow> Inr (split_once e # ps))"
| "env_splits (v # es) = Inl AttributeError"

fun py_dict :: "nat \<Rightarrow> pydict \<Rightarrow> string list list \<Rightarrow> exn + pydict" where
  "py_dict i d [] = Inr d"
| "py_dict i d ([k, v] # ps) = py_dict (Suc i) (AList.update k (JStr v) d) ps"
| "py_dict i d (p # ps) =
     Inl (ValueError (''dictionary update sequence element #'' @ show_nat i @ '' has length ''
                      @ show_nat (length p) @ ''; 2 is required''))"

definition env_dict :: "json \<Rightarrow> exn + pydict" where
  "env_dict v =
     (case (case v of
              JList es \<Rightarrow> env_splits es
            | JStr s \<Rightarrow> env_splits (map (\<lambda>c. JStr [c]) s)
            | JDict d \<Rightarrow> env_splits (map (\<lambda>kv. JStr (fst kv)) d)
            | _ \<Rightarrow> Inl TypeError) of
        Inl x \<Rightarrow> Inl x
      | Inr ps \<Rightarrow> py_dict 0 [] ps)"

definition convert_env :: "pydict \<Rightarrow> exn + pydict" where
  "convert_env job_template =
     (case map_of job_template ''env'' of
        None \<Rightarrow> Inr job_template
      | Some v \<Rightarrow>
          if truthy v
          then (case env_dict v of
                  Inl x \<Rightarrow> Inl x
                | Inr d \<Rightarrow> Inr (AList.update ''env'' (JDict d) job_template))
          else Inr job_template)"

text \<open>Lines 174 to 189: the jobs before the identifiers, names and prefix are put in.\<close>

definition build_jobs ::
  "env \<Rightarrow> json option \<Rightarrow> json option \<Rightarrow> pydict \<Rightarrow> string
     \<Rightarrow> (exn + json list) \<times> event list" where
  "build_jobs E raw command_from_command_line job_template stdin =
     (if opt_truthy raw
      then (if opt_truthy command_from_command_line
            then (Inl (Exception
                    ''You cannot specify a command at the command line when using --raw/-r.''),
                  [])
            else (parse_raw_job_spec E (JDict job_template) stdin, []))
      else (case acquire_commands E command_from_command_line stdin of
              (Inl x, printed) \<Rightarrow> (Inl x, printed)
            | (Inr commands, printed) \<Rightarrow>
                (if get_truthy job_template ''uuid'' \<and> length commands > 1
                 then Inl (Exception
                        ''You cannot specify multiple subcommands with a single UUID.'')
                 else (case convert_env job_template of
                         Inl x \<Rightarrow> Inl x
                       | Inr job_template \<Rightarrow>
                           Inr (map (\<lambda>c. deep_merge (JDict job_template)
                                             (JDict [(''command'', c)])) commands)),
                 printed)))"

text \<open>Lines 191 to 199, one turn of the loop over the jobs; \<open>n\<close> identifiers were
  generated before it. A job that is not a \<open>dict\<close> has no \<open>get\<close>; a job without a
  command fails at \<open>job["command"]\<close> when there is a prefix.\<close>

definition finish_job :: "env \<Rightarrow> json \<Rightarrow> json \<Rightarrow> nat \<Rightarrow> exn + (json \<times> nat)" where
  "finish_job E command_prefix job n =
     (case job of
        JDict d \<Rightarrow>
          (let (d, n) = (if \<not> get_truthy d ''uuid''
                         then (AList.update ''uuid'' (JStr (uuid4 E n)) d, Suc n)
                         else (d, n));
               d = (if \<not> get_truthy d ''name''
                    then AList.update ''name'' (JStr (current_user E @ ''_job'')) d
                    else d)
           in if truthy command_prefix
              then (case map_of d ''command'' of
                      None \<Rightarrow> Inl (KeyError ''command'')
                    | Some c \<Rightarrow>
                        Inr (JDict (AList.update ''command''
                                      (JStr (py_format E command_prefix @ py_format E c)) d),
                             n))
              else Inr (JDict d, n))
      | _ \<Rightarrow> Inl AttributeError)"

fun finish_jobs :: "env \<Rightarrow> json \<Rightarrow> json list \<Rightarrow> nat \<Rightarrow> exn + (json list \<times> nat)" where
  "finish_jobs E command_prefix [] n = Inr ([], n)"
| "finish_jobs E command_prefix (job # jobs) n =
     (case finish_job E command_prefix job n of
        Inl x \<Rightarrow> Inl x
      | Inr (job', n') \<Rightarrow>
          (case finish_jobs E command_prefix jobs n' of
             Inl x \<Rightarrow> Inl x
           | Inr (jobs', n'') \<Rightarrow> Inr (job' # jobs', n'')))"

text \<open>\<open>submit\<close> up to the call of \<open>submit_federated\<close>: the jobs and the group, and
  what was printed on the way.\<close>

definition assemble ::
  "env \<Rightarrow> pydict \<Rightarrow> string \<Rightarrow> (exn + (json list \<times> json option)) \<times> event list" where
  "assemble E args stdin =
     (case strip_template E args of
        Inl x \<Rightarrow> (Inl x, [])
      | Inr (raw, command_from_command_line, command_prefix, job_template) \<Rightarrow>
          (case resolve_group E job_template of
             (job_template, grp, n) \<Rightarrow>
               (case build_jobs E raw command_from_command_line job_template stdin of
                  (Inl x, printed) \<Rightarrow> (Inl x, printed)
                | (Inr jobs, printed) \<Rightarrow>
                    (case finish_jobs E command_prefix jobs n of
                       Inl x \<Rightarrow> (Inl x, printed)
                     | Inr (jobs, n') \<Rightarrow> (Inr (jobs, grp), printed)))))"

definition submit ::
  "env \<Rightarrow> ('w \<Rightarrow> cluster \<Rightarrow> string \<Rightarrow> json \<Rightarrow> outcome \<times> 'w) \<Rightarrow> cluster list \<Rightarrow> pydict
     \<Rightarrow> string \<Rightarrow> 'w \<Rightarrow> result \<times> event list \<times> 'w" where
  "submit E post clusters args stdin w =
     (case guard_no_cluster E clusters of
        Some x \<Rightarrow> (Raise x, [], w)
      | None \<Rightarrow>
          (case assemble E args stdin of
             (Inl x, printed) \<Rightarrow> (Raise x, printed, w)
           | (Inr (jobs, grp), printed) \<Rightarrow>
               (case submit_federated E post clusters jobs grp w of
                  (r, evs, w') \<Rightarrow> (r, printed @ evs, w'))))"

text \<open>The parts of a run.\<close>

definition result_of :: "result \<times> event list \<times> 'w \<Rightarrow> result" where
  "result_of run = fst run"

definition events_of :: "result \<times> event list \<times> 'w \<Rightarrow> event list" where
  "events_of run = fst (snd run)"

definition calls_of :: "result \<times> event list \<times> 'w \<Rightarrow> (cluster \<times> outcome) list" where
  "calls_of run = posts (events_of run)"

definition job_field :: "string \<Rightarrow> json \<Rightarrow> json option" where
  "job_field k job = (case job of JDict d \<Rightarrow> map_of d k | _ \<Rightarrow> None)"


section \<open>The spec's reading of the 201 body\<close>

text \<open>Section 4.4 of the spec words the first step as trimming a single layer of
  surrounding quote characters: at most one quote is taken from each end.\<close>

definition trim_one_layer :: "char \<Rightarrow> string \<Rightarrow> string" where
  "trim_one_layer q s =
     (let s = (case s of [] \<Rightarrow> [] | c # cs \<Rightarrow> if c = q then cs else s)
      in if s \<noteq> [] \<and> last s = q then butlast s else s)"

definition spec_submitted_uuids :: "env \<Rightarrow> string \<Rightarrow> string list" where
  "spec_submitted_uuids E response_text =
     (let text = trim_one_layer (CHR 0x22) response_text;
          text = (case py_find '' submitted groups'' text of
                    Some group_index \<Rightarrow> take group_index text
                  | None \<Rightarrow> text)
      in filter (is_valid_uuid E) (py_split text))"

section \<open>A concrete environment\<close>

text \<open>For the examples: an environment without colours, whose \<open>json.loads\<close> knows five
  texts, whose \<open>is_valid_uuid\<close> checks the shape 8-4-4-4-12 of hexadecimal digits, and
  whose generated identifiers are pairwise different; three clusters; and a transport
  that counts its calls and answers by the cluster's name.\<close>

definition is_hex :: "char \<Rightarrow> bool" where
  "is_hex c =
     (let n = (of_char c :: nat)
      in (48 \<le> n \<and> n \<le> 57) \<or> (97 \<le> n \<and> n \<le> 102) \<or> (65 \<le> n \<and> n \<le> 70))"

fun shaped :: "string \<Rightarrow> string \<Rightarrow> bool" where
  "shaped [] [] = True"
| "shaped (p # ps) (c # cs) =
     ((if p = CHR ''-'' then c = CHR ''-'' else is_hex c) \<and> shaped ps cs)"
| "shaped ps cs = False"

definition uuid_shaped :: "string \<Rightarrow> bool" where
  "uuid_shaped s = shaped ''xxxxxxxx-xxxx-xxxx-xxxx-xxxxxxxxxxxx'' s"

definition payload_cpus :: string where
  "payload_cpus = ''{'' @ [CHR 0x22] @ ''cpus'' @ [CHR 0x22] @ '': 2}''"

definition loads0 :: "string \<Rightarrow> json option" where
  "loads0 r =
     (if r = ''{}'' then Some (JDict [])
      else if r = payload_cpus then Some (JDict [(''cpus'', JInt 2)])
      else if r = ''[{}, {}]'' then Some (JList [JDict [], JDict []])
      else if r = ''5'' then Some (JInt 5)
      else if r = ''null'' then Some JNull
      else None)"

fun splitlines :: "string \<Rightarrow> string \<Rightarrow> string list" where
  "splitlines cur [] = (if cur = [] then [] else [rev cur])"
| "splitlines cur (c # cs) =
     (if c = CHR 0x0A then rev cur # splitlines [] cs else splitlines (c # cur) cs)"

definition E0 :: env where
  "E0 = \<lparr> colors_success = (\<lambda>s. s), colors_failed = (\<lambda>s. s),
          colors_reason = (\<lambda>v. case v of JStr s \<Rightarrow> s | _ \<Rightarrow> ''?''),
          colors_bold = (\<lambda>s. s),
          json_dumps = (\<lambda>v. ''?''), json_loads = loads0, py_str = (\<lambda>v. ''?''),
          is_valid_uuid = uuid_shaped, current_user = ''alice'',
          read_lines = splitlines [],
          guard_no_cluster = (\<lambda>cs. if cs = [] then Some (Exception ''no cluster'') else None),
          version_VERSION = ''1'',
          uuid4 = (\<lambda>n. ''uuid-'' @ replicate n (CHR ''x'')) \<rparr>"

definition uuid_a :: string where
  "uuid_a = ''123e4567-e89b-42d3-a456-426614174000''"

definition uuid_b :: string where
  "uuid_b = ''9b2f7a10-5c3d-4e8f-b1a2-0c9d8e7f6a5b''"

definition cluster_down :: cluster where
  "cluster_down = \<lparr> name = ''down'', url = ''http://down'' \<rparr>"

definition cluster_ok :: cluster where
  "cluster_ok = \<lparr> name = ''ok'', url = ''http://ok'' \<rparr>"

definition cluster_slow :: cluster where
  "cluster_slow = \<lparr> name = ''slow'', url = ''http://slow'' \<rparr>"

definition cluster_null :: cluster where
  "cluster_null = \<lparr> name = ''null'', url = ''http://null'' \<rparr>"

definition cluster_full :: cluster where
  "cluster_full = \<lparr> name = ''full'', url = ''http://full'' \<rparr>"

definition response_ok :: response where
  "response_ok =
     \<lparr> status_code = 201, resp_text = uuid_a @ '' '' @ uuid_b @ '' submitted groups foo'',
       resp_json = None \<rparr>"

definition response_null :: response where
  "response_null = \<lparr> status_code = 500, resp_text = ''null'', resp_json = Some JNull \<rparr>"

definition response_full :: response where
  "response_full =
     \<lparr> status_code = 422, resp_text = ''?'',
       resp_json = Some (JDict [(''error'', JStr ''quota exceeded'')]) \<rparr>"

definition post0 :: "nat \<Rightarrow> cluster \<Rightarrow> string \<Rightarrow> json \<Rightarrow> outcome \<times> nat" where
  "post0 w c path body =
     ((if name c = ''down'' then IOError
       else if name c = ''slow'' then ReadTimeout
       else if name c = ''ok'' then Response response_ok
       else if name c = ''null'' then Response response_null
       else Response response_full),
      Suc w)"

definition args_raw :: pydict where
  "args_raw =
     [(''raw'', JBool True), (''uuid'', JStr uuid_a), (''command'', JList []),
      (''command-prefix'', JStr [])]"






section \<open>The federation loop\<close>

lemma posts_append: "posts (xs @ ys) = posts xs @ posts ys"
  by (induction xs rule: posts.induct) simp_all

lemma posts_print_submit_result:
  "print_submit_result E c r = Inr printed \<Longrightarrow> posts printed = []"
  by (auto simp: print_submit_result_def Let_def split: if_splits sum.splits)

lemma print_submit_result_created:
  "status_code r = 201 \<Longrightarrow> print_submit_result E c r \<noteq> Inl e"
  by (simp add: print_submit_result_def Let_def)

lemma attempt_cases:
  assumes "attempt E post c jobs grp w = (r, evs, w')"
  shows "\<exists>out. posts evs = [(c, out)]
           \<and> (created out \<longrightarrow> r = Some (Return 0))
           \<and> (out = ReadTimeout \<longrightarrow> r = Some (Return 1)
                 \<and> last evs = PrintInfo (read_timeout_message E (name c) (url c)) None)
           \<and> (r = None \<longrightarrow> \<not> created out \<and> out \<noteq> ReadTimeout)"
  using assms
  by (auto simp: attempt_def Let_def posts_append posts_print_submit_result
      print_submit_result_created
      split: prod.splits outcome.splits sum.splits if_splits)

lemma federated_trace:
  assumes "submit_federated E post clusters jobs grp w = (res, evs, w')"
  shows "\<exists>n\<le>length clusters. map fst (posts evs) = take n clusters \<and> length (posts evs) = n
     \<and> (\<forall>i<n. created (snd (posts evs ! i)) \<longrightarrow> res = Return 0 \<and> Suc i = n)
     \<and> (\<forall>i<n. snd (posts evs ! i) = ReadTimeout \<longrightarrow> res = Return 1 \<and> Suc i = n
           \<and> last evs = PrintInfo (read_timeout_message E (name (clusters ! i))
                                      (url (clusters ! i))) None)"
  using assms
proof (induction clusters arbitrary: w res evs w')
  case Nil
  then show ?case by simp
next
  case (Cons c cs)
  obtain r e1 w1 where a: "attempt E post c jobs grp w = (r, e1, w1)"
    by (cases "attempt E post c jobs grp w") auto
  from attempt_cases[OF a] obtain out where o: "posts e1 = [(c, out)]"
    "created out \<longrightarrow> r = Some (Return 0)"
    "out = ReadTimeout \<longrightarrow> r = Some (Return 1)
       \<and> last e1 = PrintInfo (read_timeout_message E (name c) (url c)) None"
    "r = None \<longrightarrow> \<not> created out \<and> out \<noteq> ReadTimeout"
    by blast
  show ?case
  proof (cases r)
    case (Some x)
    with Cons.prems a have "res = x" "evs = e1" by auto
    with o Some show ?thesis
      by (intro exI[of _ 1]) auto
  next
    case None
    obtain r2 e2 w2 where b: "submit_federated E post cs jobs grp w1 = (r2, e2, w2)"
      by (cases "submit_federated E post cs jobs grp w1") auto
    with Cons.prems a None have eq: "res = r2" "evs = e1 @ e2" by auto
    from Cons.IH[OF b] obtain n where n: "n \<le> length cs" "map fst (posts e2) = take n cs"
      "length (posts e2) = n"
      "\<forall>i<n. created (snd (posts e2 ! i)) \<longrightarrow> r2 = Return 0 \<and> Suc i = n"
      "\<forall>i<n. snd (posts e2 ! i) = ReadTimeout \<longrightarrow> r2 = Return 1 \<and> Suc i = n
           \<and> last e2 = PrintInfo (read_timeout_message E (name (cs ! i)) (url (cs ! i))) None"
      by blast
    have p: "posts evs = (c, out) # posts e2"
      by (simp add: eq posts_append o(1))
    have no: "\<not> created out" "out \<noteq> ReadTimeout"
      using o(4) None by simp_all
    show ?thesis
    proof (intro exI[of _ "Suc n"] conjI allI impI)
      show "Suc n \<le> length (c # cs)"
        using n(1) by simp
      show "map fst (posts evs) = take (Suc n) (c # cs)"
        by (simp add: p n(2))
      show "length (posts evs) = Suc n"
        by (simp add: p n(3))
    next
      fix i
      assume i: "i < Suc n" and cr: "created (snd (posts evs ! i))"
      show "res = Return 0"
      proof (cases i)
        case 0
        with cr p no show ?thesis by simp
      next
        case (Suc j)
        with i cr p n(4) eq show ?thesis by simp
      qed
      show "Suc i = Suc n"
      proof (cases i)
        case 0
        with cr p no show ?thesis by simp
      next
        case (Suc j)
        with i cr p n(4) show ?thesis by simp
      qed
    next
      fix i
      assume i: "i < Suc n" and rt: "snd (posts evs ! i) = ReadTimeout"
      show "res = Return 1"
      proof (cases i)
        case 0
        with rt p no show ?thesis by simp
      next
        case (Suc j)
        with i rt p n(5) eq show ?thesis by simp
      qed
      show "Suc i = Suc n"
      proof (cases i)
        case 0
        with rt p no show ?thesis by simp
      next
        case (Suc j)
        with i rt p n(5) show ?thesis by simp
      qed
      show "last evs = PrintInfo (read_timeout_message E (name ((c # cs) ! i))
                                    (url ((c # cs) ! i))) None"
      proof (cases i)
        case 0
        with rt p no show ?thesis by simp
      next
        case (Suc j)
        with i rt p have j: "j < n" "snd (posts e2 ! j) = ReadTimeout"
          by simp_all
        with n(3) have "e2 \<noteq> []"
          by auto
        moreover from j n(5) have "last e2 = PrintInfo (read_timeout_message E (name (cs ! j))
                                    (url (cs ! j))) None"
          by blast
        ultimately show ?thesis
          using eq Suc by simp
      qed
    qed
  qed
qed

lemma run_down_ok_full_calls:
  "calls_of (submit_federated E0 post0 [cluster_down, cluster_ok, cluster_full] [] None 0)
     = [(cluster_down, IOError), (cluster_ok, Response response_ok)]"
  by (simp add: calls_of_def events_of_def attempt_def post0_def cluster_down_def
      cluster_ok_def print_submit_result_def response_ok_def Let_def)

lemma run_full_slow_ok_calls:
  "calls_of (submit_federated E0 post0 [cluster_full, cluster_slow, cluster_ok] [] None 0)
     = [(cluster_full, Response response_full), (cluster_slow, ReadTimeout)]"
  by (simp add: calls_of_def events_of_def attempt_def post0_def cluster_full_def
      cluster_slow_def print_submit_result_def response_full_def failure_reason_def Let_def)

lemma run_null_full_calls:
  "calls_of (submit_federated E0 post0 [cluster_null, cluster_full] [] None 0)
     = [(cluster_null, Response response_null)]"
  by (simp add: calls_of_def events_of_def attempt_def post0_def cluster_null_def
      print_submit_result_def response_null_def failure_reason_def Let_def)

text \<open>
  C1. Whatever the clusters and whatever the transport does: when the call to the
  cluster at position \<open>i\<close> of the list came back with status 201, the run returns 0 and the
  clusters contacted are exactly the first \<open>i + 1\<close> of the list, each once and in the
  list's order; no cluster after position \<open>i\<close> is contacted.
\<close>

theorem federated_stops_at_created:
  assumes "run = submit_federated E post clusters jobs grp w"
    and "i < length (calls_of run)"
    and "created (snd (calls_of run ! i))"
  shows "result_of run = Return 0 \<and> map fst (calls_of run) = take (Suc i) clusters"
proof -
  obtain res evs w' where r: "submit_federated E post clusters jobs grp w = (res, evs, w')"
    by (cases "submit_federated E post clusters jobs grp w") auto
  have c: "calls_of run = posts evs" and s: "result_of run = res"
    using assms(1) r by (simp_all add: calls_of_def events_of_def result_of_def)
  from federated_trace[OF r] obtain n where
    n: "map fst (posts evs) = take n clusters" "length (posts evs) = n"
    and t: "\<forall>i<n. created (snd (posts evs ! i)) \<longrightarrow> res = Return 0 \<and> Suc i = n"
    by blast
  have i: "i < n" and o: "created (snd (posts evs ! i))"
    using assms(2,3) n(2) c by simp_all
  from t i o have "res = Return 0" "Suc i = n"
    by blast+
  with n(1) show ?thesis
    unfolding c s by simp
qed

theorem federated_stops_at_created_witness:
  "1 < length (calls_of (submit_federated E0 post0 [cluster_down, cluster_ok, cluster_full] [] None 0))
   \<and> created (snd (calls_of (submit_federated E0 post0
                      [cluster_down, cluster_ok, cluster_full] [] None 0) ! 1))
   \<and> result_of (submit_federated E0 post0 [cluster_down, cluster_ok, cluster_full] [] None 0)
       = Return 0
   \<and> map fst (calls_of (submit_federated E0 post0
                 [cluster_down, cluster_ok, cluster_full] [] None 0))
       = [cluster_down, cluster_ok]"
proof -
  let ?run = "submit_federated E0 post0 [cluster_down, cluster_ok, cluster_full] [] None 0"
  have c: "calls_of ?run = [(cluster_down, IOError), (cluster_ok, Response response_ok)]"
    by (rule run_down_ok_full_calls)
  have a: "1 < length (calls_of ?run)"
    unfolding c by simp
  have b: "created (snd (calls_of ?run ! 1))"
    unfolding c by (simp add: response_ok_def)
  have r: "result_of ?run = Return 0"
    using federated_stops_at_created[OF refl a b] by (rule conjunct1)
  have m: "map fst (calls_of ?run) = [cluster_down, cluster_ok]"
    unfolding c by simp
  from a b r m show ?thesis
    by (intro conjI)
qed

text \<open>
  C2. Whatever the clusters and whatever the transport does: when the call to the
  cluster at position \<open>i\<close> raised a read timeout, the run returns 1, which is not the
  exception raised when every cluster was tried; the clusters contacted are exactly the
  first \<open>i + 1\<close> of the list, each once (the cluster that timed out is not called again
  and no later one is called); and the last event of the run is the line given to
  \<open>print_info\<close>, in the colour of a failure, that says a read timeout was encountered
  with that cluster, names it and its address, and ends with the words
  \<open>Your submission may have completed.\<close>
\<close>

theorem federated_stops_at_read_timeout:
  assumes "run = submit_federated E post clusters jobs grp w"
    and "i < length (calls_of run)"
    and "snd (calls_of run ! i) = ReadTimeout"
  shows "result_of run = Return 1
       \<and> result_of run \<noteq> Raise (all_failed E)
       \<and> map fst (calls_of run) = take (Suc i) clusters
       \<and> last (events_of run)
           = PrintInfo (colors_failed E
               (''Encountered read timeout with '' @ name (clusters ! i) @ '' (''
                @ url (clusters ! i) @ ''). Your submission may have completed.'')) None"
proof -
  obtain res evs w' where r: "submit_federated E post clusters jobs grp w = (res, evs, w')"
    by (cases "submit_federated E post clusters jobs grp w") auto
  have m: "read_timeout_message E (name (clusters ! i)) (url (clusters ! i))
             = colors_failed E
                 (''Encountered read timeout with '' @ name (clusters ! i) @ '' (''
                  @ url (clusters ! i) @ ''). Your submission may have completed.'')"
    by (rule read_timeout_message_def)
  have c: "calls_of run = posts evs" and e: "events_of run = evs" and s: "result_of run = res"
    using assms(1) r by (simp_all add: calls_of_def events_of_def result_of_def)
  from federated_trace[OF r] obtain n where
    n: "map fst (posts evs) = take n clusters" "length (posts evs) = n"
    and t: "\<forall>i<n. snd (posts evs ! i) = ReadTimeout \<longrightarrow> res = Return 1 \<and> Suc i = n
           \<and> last evs = PrintInfo (read_timeout_message E (name (clusters ! i))
                                      (url (clusters ! i))) None"
    by blast
  have i: "i < n" and o: "snd (posts evs ! i) = ReadTimeout"
    using assms(2,3) n(2) c by simp_all
  from t i o have "res = Return 1" "Suc i = n"
    "last evs = PrintInfo (read_timeout_message E (name (clusters ! i)) (url (clusters ! i))) None"
    by blast+
  with n(1) have "res = Return 1
       \<and> res \<noteq> Raise (all_failed E)
       \<and> map fst (posts evs) = take (Suc i) clusters
       \<and> last evs
           = PrintInfo (read_timeout_message E (name (clusters ! i)) (url (clusters ! i))) None"
    by simp
  then show ?thesis
    unfolding c e s m .
qed

theorem federated_stops_at_read_timeout_witness:
  "1 < length (calls_of (submit_federated E0 post0 [cluster_full, cluster_slow, cluster_ok] [] None 0))
   \<and> snd (calls_of (submit_federated E0 post0
               [cluster_full, cluster_slow, cluster_ok] [] None 0) ! 1) = ReadTimeout
   \<and> result_of (submit_federated E0 post0 [cluster_full, cluster_slow, cluster_ok] [] None 0)
       = Return 1
   \<and> map fst (calls_of (submit_federated E0 post0
                 [cluster_full, cluster_slow, cluster_ok] [] None 0))
       = [cluster_full, cluster_slow]
   \<and> last (events_of (submit_federated E0 post0
               [cluster_full, cluster_slow, cluster_ok] [] None 0))
       = PrintInfo (colors_failed E0
           (''Encountered read timeout with '' @ ''slow'' @ '' ('' @ ''http://slow''
            @ ''). Your submission may have completed.'')) None"
proof -
  let ?run = "submit_federated E0 post0 [cluster_full, cluster_slow, cluster_ok] [] None 0"
  have c: "calls_of ?run = [(cluster_full, Response response_full), (cluster_slow, ReadTimeout)]"
    by (rule run_full_slow_ok_calls)
  have a: "1 < length (calls_of ?run)"
    unfolding c by simp
  have b: "snd (calls_of ?run ! 1) = ReadTimeout"
    unfolding c by simp
  note t = federated_stops_at_read_timeout[OF refl a b]
  have r: "result_of ?run = Return 1"
    using t by (rule conjunct1)
  have m: "map fst (calls_of ?run) = [cluster_full, cluster_slow]"
    unfolding c by simp
  have n: "name ([cluster_full, cluster_slow, cluster_ok] ! 1) = ''slow''"
    and u: "url ([cluster_full, cluster_slow, cluster_ok] ! 1) = ''http://slow''"
    by (simp_all add: cluster_slow_def)
  have l: "last (events_of ?run)
       = PrintInfo (colors_failed E0
           (''Encountered read timeout with '' @ ''slow'' @ '' ('' @ ''http://slow''
            @ ''). Your submission may have completed.'')) None"
    using t unfolding n u by (elim conjE)
  from a b r m l show ?thesis
    by (intro conjI)
qed

text \<open>
  C3. The claim fails on the code where a cluster answers with a status other than 201
  and a body that is JSON but not a mapping. Two clusters, neither of which answers 201:
  the first answers 500 with the body \<open>null\<close>, the second would answer 422 with a
  mapping. In \<open>print_submit_result\<close>, \<open>'errors' in data\<close> raises a \<open>TypeError\<close> on the
  first answer, and no \<open>except\<close> clause of the loop takes it: the run ends with the
  \<open>TypeError\<close> after one call, the second cluster is not tried, and the exception is
  not the one for all clusters having failed.
\<close>

theorem federated_null_body_raises:
  "fst (post0 0 cluster_null ''rawscheduler'' (request_body [] None)) = Response response_null
   \<and> status_code response_null = 500
   \<and> fst (post0 1 cluster_full ''rawscheduler'' (request_body [] None)) = Response response_full
   \<and> status_code response_full = 422
   \<and> result_of (submit_federated E0 post0 [cluster_null, cluster_full] [] None 0)
       = Raise TypeError
   \<and> Raise TypeError \<noteq> Raise (all_failed E0)
   \<and> map fst (calls_of (submit_federated E0 post0 [cluster_null, cluster_full] [] None 0))
       = [cluster_null]"
proof -
  have p1: "fst (post0 0 cluster_null ''rawscheduler'' (request_body [] None))
              = Response response_null"
    by (simp add: post0_def cluster_null_def)
  have s1: "status_code response_null = 500"
    by (simp add: response_null_def)
  have p2: "fst (post0 1 cluster_full ''rawscheduler'' (request_body [] None))
              = Response response_full"
    by (simp add: post0_def cluster_full_def)
  have s2: "status_code response_full = 422"
    by (simp add: response_full_def)
  have r: "result_of (submit_federated E0 post0 [cluster_null, cluster_full] [] None 0)
             = Raise TypeError"
    by (simp add: result_of_def attempt_def post0_def cluster_null_def
        print_submit_result_def response_null_def failure_reason_def Let_def)
  have d: "Raise TypeError \<noteq> Raise (all_failed E0)"
    by (simp add: all_failed_def)
  have m: "map fst (calls_of (submit_federated E0 post0 [cluster_null, cluster_full] [] None 0))
             = [cluster_null]"
    unfolding run_null_full_calls by simp
  from p1 s1 p2 s2 r d m show ?thesis
    by (intro conjI)
qed

section \<open>StructuredMerge\<close>

lemma deep_merge_override: "\<not> (is_dict x \<and> is_dict y) \<Longrightarrow> deep_merge x y = y"
  by (cases x; cases y) simp_all

lemma map_of_merge_items:
  "distinct (map fst b) \<Longrightarrow>
   map_of (merge_items a b) k =
     (case map_of b k of
        None \<Rightarrow> map_of a k
      | Some bv \<Rightarrow> (case map_of a k of None \<Rightarrow> Some bv | Some av \<Rightarrow> Some (deep_merge av bv)))"
proof (induction b arbitrary: a)
  case Nil
  then show ?case by simp
next
  case (Cons p b)
  obtain k' v where p: "p = (k', v)" by (cases p)
  from Cons.prems p have d: "distinct (map fst b)" and n: "map_of b k' = None"
    by (auto simp: map_of_eq_None_iff)
  show ?case
    using Cons.IH[OF d] n
    by (simp add: p update_conv' split: option.splits)
qed

lemma distinct_merge_items:
  "distinct (map fst a) \<Longrightarrow> distinct (map fst (merge_items a b))"
  by (induction b arbitrary: a) (auto simp: distinct_update)

text \<open>
  C8. For two mappings whose override has unique keys, the merge is a mapping that sends
  a key of the override alone to the override's value, a key of the base alone to the
  base's value, and a key of both to the merge of the two values when both are mappings
  and to the override's value otherwise; it has unique keys when the base has. For any
  two values that are not both mappings (a list and a list, a scalar and a list, ...) the
  merge is the override: a list is never merged element by element.
\<close>

theorem deep_merge_rule:
  assumes "distinct (map fst b)"
  shows "\<exists>m. deep_merge (JDict a) (JDict b) = JDict m
           \<and> (\<forall>k. map_of m k =
                  (case map_of b k of
                     None \<Rightarrow> map_of a k
                   | Some bv \<Rightarrow>
                       (case map_of a k of
                          None \<Rightarrow> Some bv
                        | Some av \<Rightarrow>
                            if is_dict av \<and> is_dict bv then Some (deep_merge av bv)
                            else Some bv)))
           \<and> (distinct (map fst a) \<longrightarrow> distinct (map fst m))
           \<and> (\<forall>x y. \<not> (is_dict x \<and> is_dict y) \<longrightarrow> deep_merge x y = y)"
proof (intro exI[of _ "merge_items a b"] conjI allI impI)
  show "deep_merge (JDict a) (JDict b) = JDict (merge_items a b)"
    by simp
next
  fix k
  show "map_of (merge_items a b) k =
          (case map_of b k of
             None \<Rightarrow> map_of a k
           | Some bv \<Rightarrow>
               (case map_of a k of
                  None \<Rightarrow> Some bv
                | Some av \<Rightarrow>
                    if is_dict av \<and> is_dict bv then Some (deep_merge av bv) else Some bv))"
    using deep_merge_override
    by (simp add: map_of_merge_items[OF assms] split: option.splits)
next
  assume "distinct (map fst a)"
  then show "distinct (map fst (merge_items a b))"
    by (rule distinct_merge_items)
next
  fix x y
  assume "\<not> (is_dict x \<and> is_dict y)"
  then show "deep_merge x y = y"
    by (rule deep_merge_override)
qed

theorem deep_merge_rule_witness:
  "distinct (map fst [(''b'', JDict [(''y'', JInt 2)]), (''c'', JInt 3)])
   \<and> deep_merge (JDict [(''a'', JInt 1), (''b'', JDict [(''x'', JInt 1)])])
                 (JDict [(''b'', JDict [(''y'', JInt 2)]), (''c'', JInt 3)])
       = JDict [(''a'', JInt 1), (''b'', JDict [(''x'', JInt 1), (''y'', JInt 2)]),
                (''c'', JInt 3)]
   \<and> deep_merge (JInt 1) (JList [JInt 2]) = JList [JInt 2]"
proof -
  have d: "distinct (map fst [(''b'', JDict [(''y'', JInt 2)]), (''c'', JInt 3)])"
    by simp
  have e: "deep_merge (JDict [(''a'', JInt 1), (''b'', JDict [(''x'', JInt 1)])])
                 (JDict [(''b'', JDict [(''y'', JInt 2)]), (''c'', JInt 3)])
       = JDict [(''a'', JInt 1), (''b'', JDict [(''x'', JInt 1), (''y'', JInt 2)]),
                (''c'', JInt 3)]"
    by simp
  from deep_merge_rule[OF d, of "[]"]
  have "\<forall>x y. \<not> (is_dict x \<and> is_dict y) \<longrightarrow> deep_merge x y = y"
    by blast
  then have o: "deep_merge (JInt 1) (JList [JInt 2]) = JList [JInt 2]"
    by simp
  from d e o show ?thesis
    by (intro conjI)
qed

section \<open>CommandSource\<close>

lemma quote_all_strings: "quote_all (map JStr ts) = Inr (map shlex_quote ts)"
  by (induction ts) simp_all

lemma commands_of_tokens_many:
  assumes "2 \<le> length ts"
  shows "commands_of_tokens (map JStr ts)
           = Inr [JStr (py_join '' '' (map shlex_quote (if hd ts = ''--'' then tl ts else ts)))]"
proof -
  obtain a rest where ts: "ts = a # rest"
    using assms by (cases ts) auto
  have "quote_all (map JStr (if a = ''--'' then rest else a # rest))
          = Inr (map shlex_quote (if a = ''--'' then rest else a # rest))"
    by (rule quote_all_strings)
  then show ?thesis
    using assms unfolding ts commands_of_tokens_def Let_def
    by (auto simp del: quote_all.simps)
qed

text \<open>
  C10. A list of exactly one token is the list of commands as it is: the token is not
  quoted, and it stays when it is \<open>--\<close>. With two tokens or more, a leading \<open>--\<close> is
  dropped, each token left is quoted by \<open>shlex.quote\<close>, and the quoted tokens joined by
  single spaces are the one command. Nothing is printed in either case.
\<close>

theorem single_token_taken_verbatim:
  "acquire_commands E (Some (JList [JStr t])) stdin = (Inr [JStr t], [])
   \<and> (2 \<le> length ts \<longrightarrow>
        acquire_commands E (Some (JList (map JStr ts))) stdin
          = (Inr [JStr (py_join '' '' (map shlex_quote (if hd ts = ''--'' then tl ts else ts)))],
             []))"
proof (intro conjI impI)
  show "acquire_commands E (Some (JList [JStr t])) stdin = (Inr [JStr t], [])"
    by (simp add: acquire_commands_def commands_of_tokens_def)
next
  assume l: "2 \<le> length ts"
  then have "ts \<noteq> []" by auto
  then show "acquire_commands E (Some (JList (map JStr ts))) stdin
          = (Inr [JStr (py_join '' '' (map shlex_quote (if hd ts = ''--'' then tl ts else ts)))],
             [])"
    using commands_of_tokens_many[OF l] by (simp add: acquire_commands_def)
qed

lemma quote_echo: "shlex_quote ''echo'' = ''echo''"
  by (simp add: shlex_quote_def shlex_safe_def)

lemma quote_a_b: "shlex_quote ''a b'' = [CHR 0x27] @ ''a b'' @ [CHR 0x27]"
  by (simp add: shlex_quote_def shlex_safe_def)

theorem single_token_taken_verbatim_witness:
  "2 \<le> length [''--'', ''echo'', ''a b'']
   \<and> acquire_commands E0 (Some (JList (map JStr [''--'', ''echo'', ''a b'']))) []
       = (Inr [JStr (''echo '' @ [CHR 0x27] @ ''a b'' @ [CHR 0x27])], [])
   \<and> acquire_commands E0 (Some (JList [JStr ''--''])) [] = (Inr [JStr ''--''], [])
   \<and> acquire_commands E0 (Some (JList [JStr ''a b''])) [] = (Inr [JStr ''a b''], [])"
proof -
  have l: "2 \<le> length [''--'', ''echo'', ''a b'']"
    by simp
  note t = single_token_taken_verbatim[of E0 _ "[]" "[''--'', ''echo'', ''a b'']"]
  from t[of "''--''"] l
  have m: "acquire_commands E0 (Some (JList (map JStr [''--'', ''echo'', ''a b'']))) []
       = (Inr [JStr (py_join '' '' (map shlex_quote [''echo'', ''a b'']))], [])"
    by simp
  have j: "py_join '' '' (map shlex_quote [''echo'', ''a b''])
             = ''echo '' @ [CHR 0x27] @ ''a b'' @ [CHR 0x27]"
    by (simp add: quote_echo quote_a_b)
  from t[of "''--''"] have a: "acquire_commands E0 (Some (JList [JStr ''--''])) [] = (Inr [JStr ''--''], [])"
    by (rule conjunct1)
  from t[of "''a b''"] have b: "acquire_commands E0 (Some (JList [JStr ''a b''])) [] = (Inr [JStr ''a b''], [])"
    by (rule conjunct1)
  from l m[unfolded j] a b show ?thesis
    by (intro conjI)
qed

lemma merge_raw_other:
  "\<not> is_dict v \<Longrightarrow> \<not> is_list v \<Longrightarrow> merge_raw job v = Inl (ValueError ''malformed JSON for raw job'')"
  by (cases v) simp_all

lemma parse_raw_job_spec_fails:
  assumes "json_loads E r = None \<or> (\<exists>v. json_loads E r = Some v \<and> \<not> is_dict v \<and> \<not> is_list v)"
  shows "parse_raw_job_spec E job r = Inl (ValueError ''malformed JSON for raw job'')"
  using assms by (auto simp: parse_raw_job_spec_def merge_raw_other)

lemma submit_assemble_fails:
  "guard_no_cluster E clusters = None \<Longrightarrow> assemble E args stdin = (Inl x, printed) \<Longrightarrow>
   submit E post clusters args stdin w = (Raise x, printed, w)"
  by (simp add: submit_def)

lemma assemble_build_fails:
  assumes "strip_template E args = Inr (raw, cmd, command_prefix, tmpl)"
    and "\<And>t. build_jobs E raw cmd t stdin = (Inl x, printed)"
  shows "assemble E args stdin = (Inl x, printed)"
  using assms by (simp add: assemble_def split: prod.splits)

lemma override_wins:
  assumes "distinct (map fst d)" and "map_of d k = Some v" and "\<not> is_dict v"
  shows "job_field k (deep_merge (JDict t) (JDict d)) = Some v"
  using assms
  by (simp add: job_field_def map_of_merge_items deep_merge_override split: option.splits)

text \<open>
  C7. In raw mode the jobs are what \<open>parse_raw_job_spec\<close> makes of the template and the
  standard input. When the input parses as a mapping there is exactly one job, the
  mapping merged over the template, and a value of the mapping that is not itself a
  mapping is the job's value at its key; when it parses as a list there is one job for
  each element, the element merged over the template; when it does not parse, or parses
  as anything else, \<open>parse_raw_job_spec\<close> raises the \<open>ValueError\<close> for a malformed raw
  job, and \<open>submit\<close> ends with it without any event: no cluster is contacted.
\<close>

theorem raw_payload_shapes:
  "(opt_truthy raw \<and> \<not> opt_truthy cmd \<longrightarrow>
      build_jobs E raw cmd tmpl r = (parse_raw_job_spec E (JDict tmpl) r, []))
   \<and> (json_loads E r = Some (JDict d) \<longrightarrow>
        parse_raw_job_spec E job r = Inr [deep_merge job (JDict d)])
   \<and> (distinct (map fst d) \<and> map_of d k = Some v \<and> \<not> is_dict v \<longrightarrow>
        job_field k (deep_merge (JDict tmpl) (JDict d)) = Some v)
   \<and> (json_loads E r = Some (JList cs) \<longrightarrow>
        parse_raw_job_spec E job r = Inr (map (deep_merge job) cs))
   \<and> (json_loads E r = None
        \<or> (\<exists>u. json_loads E r = Some u \<and> \<not> is_dict u \<and> \<not> is_list u) \<longrightarrow>
        parse_raw_job_spec E job r = Inl (ValueError ''malformed JSON for raw job'')
        \<and> (guard_no_cluster E clusters = None
             \<and> strip_template E args = Inr (raw, cmd, command_prefix, tmpl)
             \<and> opt_truthy raw \<and> \<not> opt_truthy cmd \<longrightarrow>
             submit E post clusters args r w
               = (Raise (ValueError ''malformed JSON for raw job''), [], w)))"
proof (intro conjI impI)
  assume "opt_truthy raw \<and> \<not> opt_truthy cmd"
  then show "build_jobs E raw cmd tmpl r = (parse_raw_job_spec E (JDict tmpl) r, [])"
    by (simp add: build_jobs_def)
next
  assume "json_loads E r = Some (JDict d)"
  then show "parse_raw_job_spec E job r = Inr [deep_merge job (JDict d)]"
    by (simp add: parse_raw_job_spec_def)
next
  assume "distinct (map fst d) \<and> map_of d k = Some v \<and> \<not> is_dict v"
  then show "job_field k (deep_merge (JDict tmpl) (JDict d)) = Some v"
    using override_wins by blast
next
  assume "json_loads E r = Some (JList cs)"
  then show "parse_raw_job_spec E job r = Inr (map (deep_merge job) cs)"
    by (simp add: parse_raw_job_spec_def)
next
  assume f: "json_loads E r = None
        \<or> (\<exists>u. json_loads E r = Some u \<and> \<not> is_dict u \<and> \<not> is_list u)"
  then show "parse_raw_job_spec E job r = Inl (ValueError ''malformed JSON for raw job'')"
    by (rule parse_raw_job_spec_fails)
  assume a: "guard_no_cluster E clusters = None
             \<and> strip_template E args = Inr (raw, cmd, command_prefix, tmpl)
             \<and> opt_truthy raw \<and> \<not> opt_truthy cmd"
  have "\<And>t. build_jobs E raw cmd t r = (Inl (ValueError ''malformed JSON for raw job''), [])"
    using a parse_raw_job_spec_fails[OF f] by (simp add: build_jobs_def)
  then have "assemble E args r = (Inl (ValueError ''malformed JSON for raw job''), [])"
    using a assemble_build_fails by blast
  then show "submit E post clusters args r w
               = (Raise (ValueError ''malformed JSON for raw job''), [], w)"
    using a by (simp add: submit_assemble_fails)
qed

lemma strip_template_args_raw:
  "strip_template E0 args_raw
     = Inr (Some (JBool True), Some (JList []), JStr [],
            [(''uuid'', JStr uuid_a),
             (''application'', JDict [(''name'', JStr ''cook-scheduler-cli''),
                                      (''version'', JStr ''1'')])])"
  by (simp add: strip_template_def args_raw_def E0_def)

theorem raw_payload_shapes_witness:
  "json_loads E0 payload_cpus = Some (JDict [(''cpus'', JInt 2)])
   \<and> parse_raw_job_spec E0 (JDict [(''mem'', JInt 128)]) payload_cpus
       = Inr [JDict [(''mem'', JInt 128), (''cpus'', JInt 2)]]
   \<and> job_field ''cpus'' (deep_merge (JDict [(''cpus'', JInt 1)]) (JDict [(''cpus'', JInt 2)]))
       = Some (JInt 2)
   \<and> json_loads E0 ''[{}, {}]'' = Some (JList [JDict [], JDict []])
   \<and> parse_raw_job_spec E0 (JDict [(''mem'', JInt 128)]) ''[{}, {}]''
       = Inr [JDict [(''mem'', JInt 128)], JDict [(''mem'', JInt 128)]]
   \<and> json_loads E0 ''5'' = Some (JInt 5)
   \<and> submit E0 post0 [cluster_ok] args_raw ''5'' 0
       = (Raise (ValueError ''malformed JSON for raw job''), [], 0)"
proof -
  have l1: "json_loads E0 payload_cpus = Some (JDict [(''cpus'', JInt 2)])"
    by (simp add: E0_def loads0_def payload_cpus_def)
  have l2: "json_loads E0 ''[{}, {}]'' = Some (JList [JDict [], JDict []])"
    by (simp add: E0_def loads0_def payload_cpus_def)
  have l3: "json_loads E0 ''5'' = Some (JInt 5)"
    by (simp add: E0_def loads0_def payload_cpus_def)
  have p1: "parse_raw_job_spec E0 (JDict [(''mem'', JInt 128)]) payload_cpus
       = Inr [JDict [(''mem'', JInt 128), (''cpus'', JInt 2)]]"
    using raw_payload_shapes[where E = E0 and r = payload_cpus and d = "[(''cpus'', JInt 2)]"
        and job = "JDict [(''mem'', JInt 128)]"] l1
    by simp
  have p2: "job_field ''cpus'' (deep_merge (JDict [(''cpus'', JInt 1)]) (JDict [(''cpus'', JInt 2)]))
       = Some (JInt 2)"
    using raw_payload_shapes[where d = "[(''cpus'', JInt 2)]" and k = "''cpus''" and v = "JInt 2"
        and tmpl = "[(''cpus'', JInt 1)]"]
    by (simp add: job_field_def)
  have p3: "parse_raw_job_spec E0 (JDict [(''mem'', JInt 128)]) ''[{}, {}]''
       = Inr [JDict [(''mem'', JInt 128)], JDict [(''mem'', JInt 128)]]"
    using raw_payload_shapes[where E = E0 and r = "''[{}, {}]''" and cs = "[JDict [], JDict []]"
        and job = "JDict [(''mem'', JInt 128)]"] l2
    by simp
  have g: "guard_no_cluster E0 [cluster_ok] = None"
    by (simp add: E0_def)
  have f: "json_loads E0 ''5'' = None
        \<or> (\<exists>u. json_loads E0 ''5'' = Some u \<and> \<not> is_dict u \<and> \<not> is_list u)"
    using l3 by simp
  have o: "opt_truthy (Some (JBool True))" "\<not> opt_truthy (Some (JList []))"
    by (simp_all add: opt_truthy_def)
  have p4: "submit E0 post0 [cluster_ok] args_raw ''5'' 0
       = (Raise (ValueError ''malformed JSON for raw job''), [], 0)"
    using raw_payload_shapes[where E = E0 and r = "''5''" and clusters = "[cluster_ok]"
        and args = args_raw and raw = "Some (JBool True)" and cmd = "Some (JList [])"
        and post = post0 and w = 0] f g o strip_template_args_raw
    by blast
  from l1 p1 p2 l2 p3 l3 p4 show ?thesis
    by (intro conjI)
qed

section \<open>JobAssembler\<close>













lemma py_format_str: "py_format E (JStr s) = s"
  by (simp add: py_format_def)
































end
